theory Spec2Isabelle
  imports Complex_Main
begin

section \<open>Python string operations used by the resolver\<close>

text \<open>
  Model identifiers are ASCII strings. Similarity scores are Python floats in the source.
  \<open>calculate_string_similarity\<close> and \<open>calculate_model_similarity\<close> below return
  the exact rational value of the expression that the code evaluates in double precision;
  the two agree wherever the double arithmetic is exact and may differ in the last bit
  elsewhere. The properties that depend on the order of two computed scores are therefore
  stated for \<open>find_best_model_match_by\<close>, which takes the score function and the
  threshold as parameters and so covers the values the code computes.
\<close>

definition lower_char :: "char \<Rightarrow> char" where
  "lower_char c =
     (let n = (of_char c :: nat) in if 65 \<le> n \<and> n \<le> 90 then char_of (n + 32) else c)"

definition lower :: "string \<Rightarrow> string" where
  "lower s = map lower_char s"

definition is_space :: "char \<Rightarrow> bool" where
  "is_space c = (let n = (of_char c :: nat) in (9 \<le> n \<and> n \<le> 13) \<or> (28 \<le> n \<and> n \<le> 32))"

definition strip :: "string \<Rightarrow> string" where
  "strip s = rev (dropWhile is_space (rev (dropWhile is_space s)))"

definition startswith :: "string \<Rightarrow> string \<Rightarrow> bool" where
  "startswith s p = (take (length p) s = p)"

text \<open>\<open>before sep s\<close> and \<open>after sep s\<close> are the two halves of \<open>s.split(sep, 1)\<close>
  when \<open>sep\<close> occurs in \<open>s\<close>.\<close>

definition before :: "char \<Rightarrow> string \<Rightarrow> string" where
  "before sep s = takeWhile (\<lambda>c. c \<noteq> sep) s"

definition after :: "char \<Rightarrow> string \<Rightarrow> string" where
  "after sep s = tl (dropWhile (\<lambda>c. c \<noteq> sep) s)"

text \<open>\<open>split sep n s\<close> is \<open>s.split(sep, n)\<close>: at most \<open>n\<close> splits, from the left.\<close>

fun split :: "char \<Rightarrow> nat \<Rightarrow> string \<Rightarrow> string list" where
  "split sep 0 s = [s]"
| "split sep (Suc n) s =
     (if sep \<in> set s then before sep s # split sep n (after sep s) else [s])"

text \<open>\<open>substring x y\<close> is Python's \<open>x in y\<close> on strings.\<close>

fun substring :: "string \<Rightarrow> string \<Rightarrow> bool" where
  "substring x [] = (x = [])"
| "substring x (c # y) = (take (length x) (c # y) = x \<or> substring x y)"

section \<open>Similarity resolver (lib/litellm-service/app.py)\<close>

definition calculate_string_similarity :: "string \<Rightarrow> string \<Rightarrow> rat" where
  "calculate_string_similarity str1 str2 =
     (if str1 = str2 then 1
      else if str1 = [] \<or> str2 = [] then 0
      else if substring str1 str2 \<or> substring str2 str1 then
        (let shorter = min (length str1) (length str2);
             longer = max (length str1) (length str2)
         in of_nat shorter / of_nat longer)
      else
        (let set1 = set str1; set2 = set str2;
             intersection = card (set1 \<inter> set2);
             union = card (set1 \<union> set2)
         in if union = 0 then 0 else of_nat intersection / of_nat union))"

definition extract_model_parts :: "string \<Rightarrow> string \<times> string" where
  "extract_model_parts model_name =
     (let model_name = (if CHR ''/'' \<in> set model_name then after (CHR ''/'') model_name
                        else model_name)
      in if CHR '':'' \<in> set model_name
         then (strip (before (CHR '':'') model_name), strip (after (CHR '':'') model_name))
         else (strip model_name, []))"

definition calculate_model_similarity :: "string \<Rightarrow> string \<Rightarrow> rat" where
  "calculate_model_similarity requested available =
     (let req_lower = lower requested; avail_lower = lower available
      in if req_lower = avail_lower then 1
         else
           (let (req_base, req_params) = extract_model_parts req_lower;
                (avail_base, avail_params) = extract_model_parts avail_lower;
                base_similarity = calculate_string_similarity req_base avail_base;
                param_similarity = (if req_params = avail_params then 1 else 3 / 10)
            in if base_similarity > 8 / 10 \<and> req_params \<noteq> avail_params
                  \<and> req_params \<noteq> [] \<and> avail_params \<noteq> []
               then base_similarity * (5 / 10)
               else base_similarity * (7 / 10) + param_similarity * (3 / 10)))"

text \<open>Lines 51-59 of \<open>find_best_model_match\<close>: removal of a \<open>remote_<id>_\<close> prefix.\<close>

definition clean_requested :: "string \<Rightarrow> string" where
  "clean_requested requested_model =
     (if startswith requested_model ''remote_''
      then (let parts = split (CHR ''_'') 2 requested_model
            in if length parts \<ge> 3 then parts ! 2 else requested_model)
      else requested_model)"

text \<open>The scoring loop of \<open>find_best_model_match\<close>, with \<open>best_match\<close> and
  \<open>best_score\<close> as accumulators.\<close>

fun best_match_loop :: "string \<Rightarrow> string list \<Rightarrow> string option \<Rightarrow> rat \<Rightarrow> string option" where
  "best_match_loop clean [] best_match best_score = best_match"
| "best_match_loop clean (available_model # rest) best_match best_score =
     (let score = calculate_model_similarity clean available_model
      in if score > best_score \<and> score \<ge> 7 / 10
         then best_match_loop clean rest (Some available_model) score
         else best_match_loop clean rest best_match best_score)"

definition find_best_model_match :: "string \<Rightarrow> string list \<Rightarrow> string option" where
  "find_best_model_match requested_model available_models =
     (if requested_model = [] \<or> available_models = [] then None
      else
        (let clean = clean_requested requested_model
         in if clean \<in> set available_models then Some clean
            else best_match_loop clean available_models None 0))"

text \<open>
  The same function with the score function and the acceptance threshold as parameters:
  \<open>similarity\<close> stands for the doubles that \<open>calculate_model_similarity\<close> returns and
  \<open>threshold\<close> for the double \<open>0.7\<close>. Scores are compared and never combined, so any
  linearly ordered type with a zero (the initial \<open>best_score\<close>) will do.
\<close>

fun best_match_loop_by :: "(string \<Rightarrow> string \<Rightarrow> 'a::{linorder,zero}) \<Rightarrow> 'a \<Rightarrow> string
    \<Rightarrow> string list \<Rightarrow> string option \<Rightarrow> 'a \<Rightarrow> string option" where
  "best_match_loop_by similarity threshold clean [] best_match best_score = best_match"
| "best_match_loop_by similarity threshold clean (available_model # rest) best_match best_score =
     (let score = similarity clean available_model
      in if score > best_score \<and> score \<ge> threshold
         then best_match_loop_by similarity threshold clean rest (Some available_model) score
         else best_match_loop_by similarity threshold clean rest best_match best_score)"

definition find_best_model_match_by :: "(string \<Rightarrow> string \<Rightarrow> 'a::{linorder,zero}) \<Rightarrow> 'a
    \<Rightarrow> string \<Rightarrow> string list \<Rightarrow> string option" where
  "find_best_model_match_by similarity threshold requested_model available_models =
     (if requested_model = [] \<or> available_models = [] then None
      else
        (let clean = clean_requested requested_model
         in if clean \<in> set available_models then Some clean
            else best_match_loop_by similarity threshold clean available_models None 0))"

section \<open>Model registry and selector (lib/litellm-service/app.py)\<close>

text \<open>
  A model configuration is a Python dict. The keys read with \<open>config["key"]\<close> are
  fields; the keys read with \<open>config.get("key", default)\<close> are optional fields.
\<close>

record model_config =
  model :: string
  provider :: string
  priority :: int
  cost_per_1k_tokens :: rat
  task_types :: "string list option"
  max_tokens :: int
  dynamic :: "bool option"

text \<open>
  \<open>ValueError\<close> is raised by \<open>min\<close> on an empty list, \<open>IndexError\<close> by
  \<open>suitable_models[0]\<close> on an empty list; \<open>HTTPException\<close> carries the status code
  and the detail string.
\<close>

datatype error = ValueError | IndexError | HTTPException nat string

definition get_dynamic :: "model_config \<Rightarrow> bool" where
  "get_dynamic m = (case dynamic m of None \<Rightarrow> False | Some b \<Rightarrow> b)"

definition get_task_types :: "model_config \<Rightarrow> string list" where
  "get_task_types m = (case task_types m of None \<Rightarrow> [''general''] | Some ts \<Rightarrow> ts)"

text \<open>
  \<open>refresh_models_from_redis\<close>: the first argument is \<open>None\<close> when there is no Redis
  client, and otherwise the list that \<open>load_dynamic_models()\<close> returns; the second is the
  global \<open>AVAILABLE_MODELS\<close>, and the result is its new value.
\<close>

definition refresh_models_from_redis ::
  "model_config list option \<Rightarrow> model_config list \<Rightarrow> model_config list" where
  "refresh_models_from_redis redis AVAILABLE_MODELS =
     (case redis of
        None \<Rightarrow> AVAILABLE_MODELS
      | Some dynamic_models \<Rightarrow>
          (let static_models = filter (\<lambda>m. \<not> get_dynamic m) AVAILABLE_MODELS
           in static_models @ dynamic_models))"

text \<open>The initial value of \<open>AVAILABLE_MODELS\<close> at module load (lines 403-407), from the
  results of \<open>load_static_models()\<close> and \<open>load_dynamic_models()\<close>.\<close>

definition initial_models :: "model_config list \<Rightarrow> model_config list \<Rightarrow> model_config list" where
  "initial_models static_models dynamic_models = static_models @ dynamic_models"

text \<open>Python's \<open>min(xs, key=key)\<close>: the first element with the least key.\<close>

fun min_loop :: "('a \<Rightarrow> 'k::linorder) \<Rightarrow> 'a \<Rightarrow> 'a list \<Rightarrow> 'a" where
  "min_loop key best [] = best"
| "min_loop key best (x # xs) = min_loop key (if key x < key best then x else best) xs"

definition py_min :: "('a \<Rightarrow> 'k::linorder) \<Rightarrow> 'a list \<Rightarrow> error + 'a" where
  "py_min key xs = (case xs of [] \<Rightarrow> Inl ValueError | x # rest \<Rightarrow> Inr (min_loop key x rest))"

text \<open>\<open>task_type in config.get("task_types", ["general"])\<close>; the task type of a request
  may be \<open>None\<close>, which is in no list of strings.\<close>

definition suitable_for :: "string option \<Rightarrow> model_config \<Rightarrow> bool" where
  "suitable_for task_type config =
     (case task_type of None \<Rightarrow> False | Some t \<Rightarrow> t \<in> set (get_task_types config))"

definition suitable_models :: "model_config list \<Rightarrow> string option \<Rightarrow> model_config list" where
  "suitable_models AVAILABLE_MODELS task_type =
     (let suitable = filter (suitable_for task_type) AVAILABLE_MODELS
      in if suitable = [] then AVAILABLE_MODELS else suitable)"

definition apply_strategy :: "string option \<Rightarrow> model_config list \<Rightarrow> error + model_config" where
  "apply_strategy strategy suitable =
     (if strategy = Some ''cost'' then py_min cost_per_1k_tokens suitable
      else if strategy = Some ''performance'' then py_min priority suitable
      else if strategy = Some ''local'' then
        (let local_models = filter (\<lambda>m. provider m = ''ollama'') suitable
         in case local_models of
              m # _ \<Rightarrow> Inr m
            | [] \<Rightarrow> (case suitable of [] \<Rightarrow> Inl IndexError | m # _ \<Rightarrow> Inr m))
      else py_min priority suitable)"

text \<open>The body of \<open>select_optimal_model\<close> after the refresh, on the refreshed list.\<close>

definition select_from :: "model_config list \<Rightarrow> string option \<Rightarrow> string option
    \<Rightarrow> string option \<Rightarrow> error + model_config" where
  "select_from AVAILABLE_MODELS task_type strategy requested_model =
     (let available_model_names = map model AVAILABLE_MODELS;
          auto = apply_strategy strategy (suitable_models AVAILABLE_MODELS task_type)
      in case requested_model of
           None \<Rightarrow> auto
         | Some requested \<Rightarrow>
             if requested = [] then auto
             else
               (case find (\<lambda>config. model config = requested) AVAILABLE_MODELS of
                  Some config \<Rightarrow> Inr config
                | None \<Rightarrow>
                    (case find_best_model_match requested available_model_names of
                       None \<Rightarrow> auto
                     | Some fuzzy_match \<Rightarrow>
                         if fuzzy_match = [] then auto
                         else
                           (case find (\<lambda>config. model config = fuzzy_match) AVAILABLE_MODELS of
                              Some config \<Rightarrow> Inr config
                            | None \<Rightarrow> auto))))"

text \<open>\<open>select_optimal_model\<close> returns the new value of \<open>AVAILABLE_MODELS\<close> with its
  result.\<close>

definition select_optimal_model :: "model_config list option \<Rightarrow> model_config list
    \<Rightarrow> string option \<Rightarrow> string option \<Rightarrow> string option
    \<Rightarrow> model_config list \<times> (error + model_config)" where
  "select_optimal_model redis AVAILABLE_MODELS task_type strategy requested_model =
     (let refreshed = refresh_models_from_redis redis AVAILABLE_MODELS
      in (refreshed, select_from refreshed task_type strategy requested_model))"

section \<open>Execution with fallback (lib/litellm-service/app.py)\<close>

text \<open>The fields of \<open>ChatRequest\<close> that selection and the token limit read.\<close>

record chat_request =
  req_model :: "string option"
  req_max_tokens :: "int option"
  req_task_type :: "string option"
  req_strategy :: "string option"

text \<open>The keyword arguments of the outbound call that depend on the selected model.\<close>

record call_kwargs =
  kw_model :: string
  kw_max_tokens :: int

definition litellm_kwargs :: "chat_request \<Rightarrow> model_config \<Rightarrow> call_kwargs" where
  "litellm_kwargs request selected_model =
     \<lparr>kw_model = provider selected_model @ ''/'' @ model selected_model,
      kw_max_tokens =
        (case req_max_tokens request of
           None \<Rightarrow> min 4096 (max_tokens selected_model)
         | Some n \<Rightarrow>
             if n \<noteq> 0 then min n (max_tokens selected_model)
             else min 4096 (max_tokens selected_model))\<rparr>"

text \<open>
  The provider SDK call \<open>litellm.acompletion\<close> is a parameter: from the keyword arguments
  to the message of the exception it raises (\<open>Inl\<close>) or to its response (\<open>Inr\<close>).
  \<open>call_litellm\<close> re-raises the exception.
\<close>

definition call_litellm :: "(call_kwargs \<Rightarrow> string + 'r) \<Rightarrow> chat_request \<Rightarrow> model_config
    \<Rightarrow> string + 'r" where
  "call_litellm acompletion request selected_model =
     acompletion (litellm_kwargs request selected_model)"

text \<open>
  The loop \<open>for attempt in range(max_retries + 1)\<close> of \<open>try_with_fallback\<close>. The
  argument \<open>retries_left\<close> is \<open>max_retries - attempt\<close>, so \<open>attempt < max_retries\<close> is
  \<open>retries_left = Suc n\<close>. The first component of the result lists the models attempted,
  in order (the \<open>ATTEMPT\<close> log lines). The retry budget \<open>max_retries\<close> is a
  natural number.
\<close>

fun fallback_loop :: "(call_kwargs \<Rightarrow> string + 'r) \<Rightarrow> chat_request \<Rightarrow> model_config list
    \<Rightarrow> nat \<Rightarrow> model_config \<Rightarrow> model_config list \<times> (error + 'r \<times> model_config)" where
  "fallback_loop acompletion request AVAILABLE_MODELS retries_left selected_model =
     (case call_litellm acompletion request selected_model of
        Inr result \<Rightarrow> ([selected_model], Inr (result, selected_model))
      | Inl e \<Rightarrow>
          (let failed = ([selected_model],
                 Inl (HTTPException 500 (''All LLM providers failed. Last error: '' @ e)))
           in case retries_left of
                0 \<Rightarrow> failed
              | Suc n \<Rightarrow>
                  (let remaining_models =
                         filter (\<lambda>m. model m \<noteq> model selected_model
                                      \<and> suitable_for (req_task_type request) m)
                           AVAILABLE_MODELS
                   in if remaining_models = [] then failed
                      else
                        (case py_min priority remaining_models of
                           Inl err \<Rightarrow> ([selected_model], Inl err)
                         | Inr next_model \<Rightarrow>
                             (let (attempted, outcome) =
                                    fallback_loop acompletion request AVAILABLE_MODELS n next_model
                              in (selected_model # attempted, outcome))))))"

definition try_with_fallback :: "model_config list option \<Rightarrow> model_config list
    \<Rightarrow> (call_kwargs \<Rightarrow> string + 'r) \<Rightarrow> chat_request \<Rightarrow> nat
    \<Rightarrow> model_config list \<times> (error + 'r \<times> model_config)" where
  "try_with_fallback redis AVAILABLE_MODELS acompletion request max_retries =
     (let (refreshed, selection) =
            select_optimal_model redis AVAILABLE_MODELS (req_task_type request)
              (req_strategy request) (req_model request)
      in case selection of
           Inl err \<Rightarrow> ([], Inl err)
         | Inr selected_model \<Rightarrow>
             fallback_loop acompletion request refreshed max_retries selected_model)"

section \<open>The standalone copy (litellm-service/app.py)\<close>

text \<open>
  The older copy of the service has the same \<open>try_with_fallback\<close> loop and the same
  exact-match and strategy code in \<open>select_optimal_model\<close>, without the refresh and the
  fuzzy matching. Its \<open>call_litellm\<close> sets the token limit differently:
  \<open>max_tokens = request.max_tokens or min(selected_model["max_tokens"], 2000)\<close>.
\<close>

definition standalone_max_tokens :: "chat_request \<Rightarrow> model_config \<Rightarrow> int" where
  "standalone_max_tokens request selected_model =
     (case req_max_tokens request of
        None \<Rightarrow> min (max_tokens selected_model) 2000
      | Some n \<Rightarrow> if n \<noteq> 0 then n else min (max_tokens selected_model) 2000)"

text \<open>The keyword arguments of the standalone \<open>call_litellm\<close>: the model id is passed
  without the provider prefix, and \<open>kwargs["max_tokens"]\<close> is the value above.\<close>

definition standalone_litellm_kwargs :: "chat_request \<Rightarrow> model_config \<Rightarrow> call_kwargs" where
  "standalone_litellm_kwargs request selected_model =
     \<lparr>kw_model = model selected_model,
      kw_max_tokens = standalone_max_tokens request selected_model\<rparr>"

section \<open>Example registry entries and requests\<close>

text \<open>A configuration eligible for task type \<open>general\<close>, with the given id, priority and
  cost, and a request with no model, task type \<open>general\<close> and strategy \<open>balanced\<close>.\<close>

definition example_config :: "string \<Rightarrow> int \<Rightarrow> rat \<Rightarrow> model_config" where
  "example_config name prio cost =
     \<lparr>model = name, provider = ''openai'', priority = prio, cost_per_1k_tokens = cost,
      task_types = Some [''general''], max_tokens = 4096, dynamic = None\<rparr>"

text \<open>A provider whose every call raises an exception with the message \<open>boom\<close>.\<close>

definition failing_provider :: "call_kwargs \<Rightarrow> string + unit" where
  "failing_provider kwargs = Inl ''boom''"

definition example_request :: chat_request where
  "example_request =
     \<lparr>req_model = None, req_max_tokens = None, req_task_type = Some ''general'',
      req_strategy = Some ''balanced''\<rparr>"

section \<open>Properties of the scoring functions and of the loops\<close>

lemma lower_char_idem: "lower_char (lower_char c) = lower_char c"
  by (auto simp: lower_char_def Let_def)

lemma lower_idem: "lower (lower s) = lower s"
  by (simp add: lower_def lower_char_idem)

lemma ratio_le_1: "m \<le> n \<Longrightarrow> rat_of_nat m / rat_of_nat n \<le> 1"
  by (cases "n = 0") (simp_all add: divide_le_eq_1)

lemma similarity_le_1: "calculate_string_similarity a b \<le> 1"
proof -
  have "card (set a \<inter> set b) \<le> card (set a \<union> set b)"
    by (rule card_mono) auto
  then have j: "rat_of_nat (card (set a \<inter> set b)) / rat_of_nat (card (set a \<union> set b)) \<le> 1"
    by (rule ratio_le_1)
  have "min (length a) (length b) \<le> max (length a) (length b)"
    by simp
  then have "rat_of_nat (min (length a) (length b)) / rat_of_nat (max (length a) (length b)) \<le> 1"
    by (rule ratio_le_1)
  with j show ?thesis
    unfolding calculate_string_similarity_def Let_def by simp
qed

lemma model_similarity_le_1: "calculate_model_similarity a b \<le> 1"
proof -
  obtain rb rp where r: "extract_model_parts (lower a) = (rb, rp)"
    by (cases "extract_model_parts (lower a)")
  obtain ab ap where v: "extract_model_parts (lower b) = (ab, ap)"
    by (cases "extract_model_parts (lower b)")
  have "calculate_string_similarity rb ab \<le> 1"
    by (rule similarity_le_1)
  then show ?thesis
    by (simp add: calculate_model_similarity_def Let_def r v)
qed

lemma model_similarity_same_lower:
  "lower a = lower b \<Longrightarrow> calculate_model_similarity a b = 1"
  by (simp add: calculate_model_similarity_def)

lemma loop_None:
  "best_match_loop clean xs bm bs = None \<longleftrightarrow>
     bm = None \<and> (\<forall>c\<in>set xs. \<not> (calculate_model_similarity clean c > bs
                                   \<and> calculate_model_similarity clean c \<ge> 7 / 10))"
  by (induction xs arbitrary: bm bs) (auto simp: Let_def)

lemma loop_Some:
  "best_match_loop clean xs bm bs = Some m \<Longrightarrow>
     (bm = Some m \<and> (\<forall>c\<in>set xs. \<not> (calculate_model_similarity clean c > bs
                                   \<and> calculate_model_similarity clean c \<ge> 7 / 10)))
     \<or> (m \<in> set xs \<and> calculate_model_similarity clean m > bs
         \<and> calculate_model_similarity clean m \<ge> 7 / 10
         \<and> (\<forall>c\<in>set xs. calculate_model_similarity clean c \<le> calculate_model_similarity clean m)
         \<and> find (\<lambda>c. calculate_model_similarity clean c = calculate_model_similarity clean m) xs = Some m)"
proof (induction xs arbitrary: bm bs)
  case Nil
  then show ?case by simp
next
  case (Cons x rest)
  let ?sc = "calculate_model_similarity clean"
  show ?case
  proof (cases "?sc x > bs \<and> ?sc x \<ge> 7 / 10")
    case True
    with Cons.prems have "best_match_loop clean rest (Some x) (?sc x) = Some m"
      by (simp add: Let_def)
    from Cons.IH [OF this] True show ?thesis
      by (elim disjE) (force+)
  next
    case False
    with Cons.prems have "best_match_loop clean rest bm bs = Some m"
      by (auto simp: Let_def)
    from Cons.IH [OF this] False show ?thesis
      by (elim disjE) (force+)
  qed
qed

text \<open>
  A candidate that scores at least 0.70 against the cleaned id makes
  \<open>find_best_model_match\<close> return a candidate that scores at least as much.
\<close>

lemma find_best_model_match_accepts:
  assumes "requested \<noteq> []" and "c \<in> set available"
    and "calculate_model_similarity (clean_requested requested) c \<ge> 7 / 10"
  shows "\<exists>m. find_best_model_match requested available = Some m \<and> m \<in> set available
           \<and> calculate_model_similarity (clean_requested requested) c
               \<le> calculate_model_similarity (clean_requested requested) m"
proof (cases "clean_requested requested \<in> set available")
  case True
  let ?clean = "clean_requested requested"
  have "calculate_model_similarity ?clean ?clean = 1"
    by (rule model_similarity_same_lower) simp
  then have "calculate_model_similarity ?clean c \<le> calculate_model_similarity ?clean ?clean"
    by (simp add: model_similarity_le_1)
  moreover from True assms(1) have "find_best_model_match requested available = Some ?clean"
    by (auto simp: find_best_model_match_def)
  ultimately show ?thesis
    using True by blast
next
  case False
  let ?clean = "clean_requested requested"
  from assms(2) obtain a list where av: "available = a # list"
    by (cases available) auto
  from False assms(1) have res: "find_best_model_match requested available
      = best_match_loop ?clean available None 0"
    unfolding av by (simp add: find_best_model_match_def Let_def del: best_match_loop.simps)
  from assms(3) have "0 < calculate_model_similarity ?clean c" by simp
  with assms(2,3) have "best_match_loop ?clean available None 0 \<noteq> None"
    unfolding loop_None by blast
  then obtain m where m: "best_match_loop ?clean available None 0 = Some m"
    by auto
  from loop_Some [OF m] assms(2) have "m \<in> set available
      \<and> calculate_model_similarity ?clean c \<le> calculate_model_similarity ?clean m"
    by auto
  with res m show ?thesis by simp
qed

text \<open>The scoring loop for an arbitrary score function and threshold.\<close>

lemma loop_by_None:
  "best_match_loop_by similarity threshold clean xs bm bs = None \<longleftrightarrow>
     bm = None \<and> (\<forall>c\<in>set xs. \<not> (similarity clean c > bs \<and> similarity clean c \<ge> threshold))"
  by (induction xs arbitrary: bm bs) (auto simp: Let_def)

lemma loop_by_Some:
  "best_match_loop_by similarity threshold clean xs bm bs = Some m \<Longrightarrow>
     (bm = Some m \<and> (\<forall>c\<in>set xs. \<not> (similarity clean c > bs \<and> similarity clean c \<ge> threshold)))
     \<or> (m \<in> set xs \<and> similarity clean m > bs \<and> similarity clean m \<ge> threshold
         \<and> (\<forall>c\<in>set xs. similarity clean c \<le> similarity clean m)
         \<and> find (\<lambda>c. similarity clean c = similarity clean m) xs = Some m)"
proof (induction xs arbitrary: bm bs)
  case Nil
  then show ?case by simp
next
  case (Cons x rest)
  let ?sc = "similarity clean"
  show ?case
  proof (cases "?sc x > bs \<and> ?sc x \<ge> threshold")
    case True
    then have gt: "bs < ?sc x" and ge: "threshold \<le> ?sc x" by simp_all
    from True Cons.prems
    have "best_match_loop_by similarity threshold clean rest (Some x) (?sc x) = Some m"
      by (simp add: Let_def)
    from Cons.IH [OF this]
    consider (kept) "x = m" "\<forall>c\<in>set rest. \<not> (?sc c > ?sc x \<and> ?sc c \<ge> threshold)"
      | (later) "m \<in> set rest" "?sc x < ?sc m" "threshold \<le> ?sc m"
          "\<forall>c\<in>set rest. ?sc c \<le> ?sc m" "find (\<lambda>c. ?sc c = ?sc m) rest = Some m"
      by auto
    then show ?thesis
    proof cases
      case kept
      have "?sc c \<le> ?sc x" if "c \<in> set rest" for c
      proof -
        from kept(2) that have "\<not> ?sc c > ?sc x \<or> \<not> ?sc c \<ge> threshold" by blast
        with ge show ?thesis by (auto simp: not_less not_le)
      qed
      with kept(1) gt ge show ?thesis by auto
    next
      case later
      from gt later(2) have "bs < ?sc m" by order
      moreover from later(2) have "?sc x \<le> ?sc m" "?sc x \<noteq> ?sc m" by simp_all
      ultimately show ?thesis using later by simp
    qed
  next
    case False
    with Cons.prems have "best_match_loop_by similarity threshold clean rest bm bs = Some m"
      by (auto simp: Let_def)
    from Cons.IH [OF this]
    consider (kept) "bm = Some m" "\<forall>c\<in>set rest. \<not> (?sc c > bs \<and> ?sc c \<ge> threshold)"
      | (later) "m \<in> set rest" "bs < ?sc m" "threshold \<le> ?sc m"
          "\<forall>c\<in>set rest. ?sc c \<le> ?sc m" "find (\<lambda>c. ?sc c = ?sc m) rest = Some m"
      by auto
    then show ?thesis
    proof cases
      case kept
      with False show ?thesis by simp
    next
      case later
      from False have "\<not> bs < ?sc x \<or> \<not> threshold \<le> ?sc x" by blast
      then have "?sc x < ?sc m"
      proof
        assume "\<not> bs < ?sc x"
        with later(2) show ?thesis by order
      next
        assume "\<not> threshold \<le> ?sc x"
        with later(3) show ?thesis by order
      qed
      then have "?sc x \<le> ?sc m" "?sc x \<noteq> ?sc m" by simp_all
      with later show ?thesis by simp
    qed
  qed
qed

text \<open>With the exact scores and the threshold 7/10 the parametrised resolver is
  \<open>find_best_model_match\<close>.\<close>

lemma best_match_loop_by_exact:
  "best_match_loop_by calculate_model_similarity (7 / 10) clean xs bm bs
     = best_match_loop clean xs bm bs"
  by (induction xs arbitrary: bm bs) (simp_all add: Let_def)

lemma find_best_model_match_by_exact:
  "find_best_model_match_by calculate_model_similarity (7 / 10) requested available
     = find_best_model_match requested available"
  by (simp add: find_best_model_match_by_def find_best_model_match_def Let_def
      best_match_loop_by_exact del: best_match_loop.simps best_match_loop_by.simps)

lemma min_loop_spec:
  "min_loop key best xs \<in> set (best # xs)
   \<and> (\<forall>m\<in>set (best # xs). key (min_loop key best xs) \<le> key m)
   \<and> find (\<lambda>m. key m = key (min_loop key best xs)) (best # xs) = Some (min_loop key best xs)"
proof (induction xs arbitrary: best)
  case Nil
  show ?case by simp
next
  case (Cons x xs)
  show ?case
  proof (cases "key x < key best")
    case True
    let ?r = "min_loop key x xs"
    have r: "min_loop key best (x # xs) = ?r" using True by simp
    from Cons.IH [of x]
    have mem: "?r \<in> set (x # xs)"
      and le: "\<forall>m\<in>set (x # xs). key ?r \<le> key m"
      and fst: "find (\<lambda>m. key m = key ?r) (x # xs) = Some ?r"
      by blast+
    from le have "key ?r \<le> key x" by simp
    with True have lt: "key ?r < key best" by simp
    then have "key best \<noteq> key ?r" by auto
    then have "find (\<lambda>m. key m = key ?r) (best # x # xs) = Some ?r"
      using fst by simp
    moreover have "\<forall>m\<in>set (best # x # xs). key ?r \<le> key m"
      using le lt by simp
    moreover have "?r \<in> set (best # x # xs)"
      using mem by simp
    ultimately show ?thesis
      unfolding r by blast
  next
    case False
    let ?r = "min_loop key best xs"
    have r: "min_loop key best (x # xs) = ?r" using False by simp
    from Cons.IH [of best]
    have mem: "?r \<in> set (best # xs)"
      and le: "\<forall>m\<in>set (best # xs). key ?r \<le> key m"
      and fst: "find (\<lambda>m. key m = key ?r) (best # xs) = Some ?r"
      by blast+
    from le have lb: "key ?r \<le> key best" by simp
    with False have lx: "key ?r \<le> key x" by simp
    have "find (\<lambda>m. key m = key ?r) (best # x # xs) = Some ?r"
    proof (cases "key best = key ?r")
      case True
      with fst show ?thesis by simp
    next
      case ne: False
      with lb have "key ?r < key best" by simp
      with False have "key x \<noteq> key ?r" by auto
      with ne fst show ?thesis by simp
    qed
    moreover have "\<forall>m\<in>set (best # x # xs). key ?r \<le> key m"
      using le lx by simp
    moreover have "?r \<in> set (best # x # xs)"
      using mem by auto
    ultimately show ?thesis
      unfolding r by blast
  qed
qed

lemma py_min_spec:
  assumes "xs \<noteq> []"
  shows "\<exists>d. py_min key xs = Inr d \<and> d \<in> set xs \<and> (\<forall>m\<in>set xs. key d \<le> key m)
           \<and> find (\<lambda>m. key m = key d) xs = Some d"
proof -
  from assms obtain x rest where xs: "xs = x # rest" by (cases xs) auto
  from min_loop_spec [of key x rest] show ?thesis
    unfolding xs py_min_def by simp
qed

section \<open>Fallback execution\<close>

text \<open>
  C1. The claim: with N eligible models that all fail and \<open>max_retries = N - 1\<close>, the
  call attempts N distinct models and then fails with the last error. Evaluated on three
  eligible models \<open>a\<close>, \<open>b\<close>, \<open>c\<close> (priorities 1, 2, 3) that all fail, with
  \<open>max_retries = 2\<close>: the models attempted are \<open>a\<close>, \<open>b\<close>, \<open>a\<close>. The
  fallback only excludes the model that has just failed, so \<open>a\<close> is repeated and
  \<open>c\<close> is never tried; the call then fails with status 500 and the last error.
\<close>

theorem fallback_repeats_first_model:
  "try_with_fallback None
     [example_config ''a'' 1 0, example_config ''b'' 2 0, example_config ''c'' 3 0]
     failing_provider example_request 2
   = ([example_config ''a'' 1 0, example_config ''b'' 2 0, example_config ''a'' 1 0],
      Inl (HTTPException 500 ''All LLM providers failed. Last error: boom''))"
  by code_simp

section \<open>Prefix stripping\<close>

text \<open>
  C2. The claim: a leading \<open>remote_<token>_\<close> prefix is removed only when the token is
  alphanumeric and at least 3 characters long, so \<open>remote_ab_model\<close> is left unchanged
  and cannot match through the stripping path. The prefix removal inside
  \<open>find_best_model_match\<close> has no check on the token: evaluated at
  \<open>remote_ab_model\<close> against the candidate list \<open>[model]\<close>, the cleaned id is
  \<open>model\<close> and the exact-match step after cleaning returns it.
\<close>

theorem short_token_prefix_is_stripped:
  "clean_requested ''remote_ab_model'' = ''model''
   \<and> find_best_model_match ''remote_ab_model'' [''model''] = Some ''model''"
  by code_simp

section \<open>Variant strictness\<close>



section \<open>Acceptance threshold and ties\<close>

text \<open>
  C4, as amended. For a non-empty requested id, whatever values the score function
  returns and for every positive threshold (the code's is the double 0.7): if the cleaned
  id is itself a candidate, it is returned by the exact-match step, before any scoring.
  Otherwise the resolver returns no candidate if and only if every candidate scores
  strictly below the threshold; a returned candidate is in the list, scores at least the
  threshold (a score equal to the threshold is accepted), attains the maximum score, and
  is the first candidate in list order with that score.
\<close>

theorem resolver_threshold_and_ties:
  assumes "requested \<noteq> []" and "0 < threshold"
  shows "(clean_requested requested \<in> set available \<longrightarrow>
            find_best_model_match_by similarity threshold requested available
              = Some (clean_requested requested))
       \<and> (clean_requested requested \<notin> set available \<longrightarrow>
            (find_best_model_match_by similarity threshold requested available = None \<longleftrightarrow>
               (\<forall>c\<in>set available. similarity (clean_requested requested) c < threshold))
          \<and> (\<forall>m. find_best_model_match_by similarity threshold requested available = Some m \<longrightarrow>
                 m \<in> set available
               \<and> threshold \<le> similarity (clean_requested requested) m
               \<and> (\<forall>c\<in>set available.
                     similarity (clean_requested requested) c
                       \<le> similarity (clean_requested requested) m)
               \<and> find (\<lambda>c. similarity (clean_requested requested) c
                              = similarity (clean_requested requested) m)
                      available = Some m))"
proof (intro conjI impI)
  assume "clean_requested requested \<in> set available"
  with assms(1) show "find_best_model_match_by similarity threshold requested available
      = Some (clean_requested requested)"
    by (auto simp: find_best_model_match_by_def)
next
  let ?clean = "clean_requested requested"
  let ?sc = "similarity ?clean"
  assume notin: "?clean \<notin> set available"
  have res: "find_best_model_match_by similarity threshold requested available
      = best_match_loop_by similarity threshold ?clean available None 0"
  proof (cases available)
    case Nil
    then show ?thesis by (simp add: find_best_model_match_by_def)
  next
    case (Cons a list)
    with notin assms(1) show ?thesis
      by (simp add: find_best_model_match_by_def Let_def del: best_match_loop_by.simps)
  qed
  have "\<not> (?sc c > 0 \<and> ?sc c \<ge> threshold) \<longleftrightarrow> ?sc c < threshold" for c
    using assms(2) by (auto simp: not_le)
  then show "find_best_model_match_by similarity threshold requested available = None \<longleftrightarrow>
      (\<forall>c\<in>set available. ?sc c < threshold)"
    unfolding res loop_by_None by simp
  show "\<forall>m. find_best_model_match_by similarity threshold requested available = Some m \<longrightarrow>
      m \<in> set available \<and> threshold \<le> ?sc m \<and> (\<forall>c\<in>set available. ?sc c \<le> ?sc m)
      \<and> find (\<lambda>c. ?sc c = ?sc m) available = Some m"
  proof (intro allI impI)
    fix m
    assume "find_best_model_match_by similarity threshold requested available = Some m"
    then have "best_match_loop_by similarity threshold ?clean available None 0 = Some m"
      by (simp add: res)
    from loop_by_Some [OF this]
    show "m \<in> set available \<and> threshold \<le> ?sc m \<and> (\<forall>c\<in>set available. ?sc c \<le> ?sc m)
      \<and> find (\<lambda>c. ?sc c = ?sc m) available = Some m"
      by auto
  qed
qed

text \<open>
  C4 at a concrete input, with the exact scores and the threshold 7/10: for \<open>abcd\<close>
  the candidate \<open>abcdefgh\<close> scores 0.65 and is rejected, \<open>abcdefg\<close> and
  \<open>zabcdzz\<close> both score exactly 0.70 (the same expression, \<open>(4/7) * 0.7 + 1.0 * 0.3\<close>,
  for both), and the first of the two is returned.
\<close>

theorem resolver_threshold_and_ties_witness:
  "''abcd'' \<noteq> [] \<and> (0::rat) < 7 / 10
   \<and> clean_requested ''abcd'' \<notin> set [''abcdefgh'', ''abcdefg'', ''zabcdzz'']
   \<and> calculate_model_similarity (clean_requested ''abcd'') ''abcdefgh'' = 13 / 20
   \<and> calculate_model_similarity (clean_requested ''abcd'') ''abcdefg'' = 7 / 10
   \<and> calculate_model_similarity (clean_requested ''abcd'') ''zabcdzz'' = 7 / 10
   \<and> find_best_model_match_by calculate_model_similarity (7 / 10) ''abcd''
        [''abcdefgh'', ''abcdefg'', ''zabcdzz''] = Some ''abcdefg''
   \<and> find (\<lambda>c. calculate_model_similarity (clean_requested ''abcd'') c
                  = calculate_model_similarity (clean_requested ''abcd'') ''abcdefg'')
        [''abcdefgh'', ''abcdefg'', ''zabcdzz''] = Some ''abcdefg''"
proof -
  have ne: "''abcd'' \<noteq> []" by simp
  have pos: "(0::rat) < 7 / 10" by simp
  have c: "clean_requested ''abcd'' \<notin> set [''abcdefgh'', ''abcdefg'', ''zabcdzz'']"
    by code_simp
  have s1: "calculate_model_similarity (clean_requested ''abcd'') ''abcdefgh'' = 13 / 20"
    by code_simp
  have s2: "calculate_model_similarity (clean_requested ''abcd'') ''abcdefg'' = 7 / 10"
    by code_simp
  have s3: "calculate_model_similarity (clean_requested ''abcd'') ''zabcdzz'' = 7 / 10"
    by code_simp
  have r: "find_best_model_match_by calculate_model_similarity (7 / 10) ''abcd''
        [''abcdefgh'', ''abcdefg'', ''zabcdzz''] = Some ''abcdefg''"
    by code_simp
  from resolver_threshold_and_ties [OF ne pos, of "[''abcdefgh'', ''abcdefg'', ''zabcdzz'']"
      calculate_model_similarity] r c
  have "find (\<lambda>c. calculate_model_similarity (clean_requested ''abcd'') c
                  = calculate_model_similarity (clean_requested ''abcd'') ''abcdefg'')
        [''abcdefgh'', ''abcdefg'', ''zabcdzz''] = Some ''abcdefg''"
    by (simp del: find.simps set_simps)
  with ne pos c s1 s2 s3 r show ?thesis by blast
qed

text \<open>
  C4 as stated fails where the exact-match step fires: for the requested id \<open>gpt\<close>
  both \<open>GPT\<close> and \<open>gpt\<close> score 1.0 (the value returned for identifiers equal up to
  letter case, with no arithmetic), \<open>GPT\<close> is the first of them in list order, and the
  resolver returns \<open>gpt\<close>.
\<close>

theorem resolver_tie_counterexample:
  "calculate_model_similarity (clean_requested ''gpt'') ''GPT'' = 1
   \<and> calculate_model_similarity (clean_requested ''gpt'') ''gpt'' = 1
   \<and> find_best_model_match ''gpt'' [''GPT'', ''gpt''] = Some ''gpt''
   \<and> find_best_model_match_by calculate_model_similarity (7 / 10) ''gpt'' [''GPT'', ''gpt'']
       = Some ''gpt''"
  by code_simp

section \<open>Exact match precedence\<close>

text \<open>
  C5, as amended. For every non-empty requested id and every refreshed registry that
  contains a descriptor with that id, \<open>select_optimal_model\<close> returns the first
  descriptor of the registry with that id, whatever the task type, the strategy and the
  other entries are; when the ids of the registry are unique this is the descriptor itself.
\<close>

theorem exact_match_precedence:
  assumes "requested \<noteq> []"
    and "d \<in> set (refresh_models_from_redis redis AVAILABLE_MODELS)"
    and "model d = requested"
  shows "\<exists>d'. select_optimal_model redis AVAILABLE_MODELS task_type strategy (Some requested)
              = (refresh_models_from_redis redis AVAILABLE_MODELS, Inr d')
           \<and> model d' = requested
           \<and> find (\<lambda>config. model config = requested)
                (refresh_models_from_redis redis AVAILABLE_MODELS) = Some d'
           \<and> (distinct (map model (refresh_models_from_redis redis AVAILABLE_MODELS))
                \<longrightarrow> d' = d)"
proof -
  let ?snap = "refresh_models_from_redis redis AVAILABLE_MODELS"
  from assms(2,3) obtain d' where f: "find (\<lambda>config. model config = requested) ?snap = Some d'"
    by (cases "find (\<lambda>config. model config = requested) ?snap") (auto simp: find_None_iff)
  then have m: "model d' = requested" and mem: "d' \<in> set ?snap"
    by (auto simp: find_Some_iff)
  have "d' = d" if "distinct (map model ?snap)"
    using that mem assms(2,3) m by (auto simp: distinct_map inj_on_def)
  with f m assms(1) show ?thesis
    by (simp add: select_optimal_model_def select_from_def Let_def)
qed

text \<open>
  C5 at a concrete input: the requested id \<open>b\<close> is returned although \<open>ab\<close> has
  the lower priority and the lower cost.
\<close>

theorem exact_match_precedence_witness:
  "''b'' \<noteq> []
   \<and> example_config ''b'' 9 5 \<in> set (refresh_models_from_redis None
        [example_config ''ab'' 1 0, example_config ''b'' 9 5])
   \<and> model (example_config ''b'' 9 5) = ''b''
   \<and> select_optimal_model None [example_config ''ab'' 1 0, example_config ''b'' 9 5]
        (Some ''general'') (Some ''cost'') (Some ''b'')
      = ([example_config ''ab'' 1 0, example_config ''b'' 9 5], Inr (example_config ''b'' 9 5))"
proof -
  have ne: "''b'' \<noteq> []" by simp
  have mem: "example_config ''b'' 9 5 \<in> set (refresh_models_from_redis None
        [example_config ''ab'' 1 0, example_config ''b'' 9 5])"
    by (simp add: refresh_models_from_redis_def)
  have m: "model (example_config ''b'' 9 5) = ''b''"
    by (simp add: example_config_def)
  have dist: "distinct (map model (refresh_models_from_redis None
        [example_config ''ab'' 1 0, example_config ''b'' 9 5]))"
    by (simp add: refresh_models_from_redis_def example_config_def)
  have r: "refresh_models_from_redis None [example_config ''ab'' 1 0, example_config ''b'' 9 5]
      = [example_config ''ab'' 1 0, example_config ''b'' 9 5]"
    by (simp add: refresh_models_from_redis_def)
  from exact_match_precedence [OF ne mem m, of "Some ''general''" "Some ''cost''"] dist
  have "select_optimal_model None [example_config ''ab'' 1 0, example_config ''b'' 9 5]
        (Some ''general'') (Some ''cost'') (Some ''b'')
      = (refresh_models_from_redis None [example_config ''ab'' 1 0, example_config ''b'' 9 5],
         Inr (example_config ''b'' 9 5))"
    by blast
  with ne mem m r show ?thesis by simp
qed

text \<open>
  C5 as stated fails for the empty requested id: the guard \<open>if requested_model\<close>
  treats it as no request, and a registry holding a descriptor with the empty id returns
  the automatically selected descriptor \<open>b\<close> instead.
\<close>

theorem empty_requested_id_counterexample:
  "select_optimal_model None
     [(example_config '''' 1 0)\<lparr>task_types := Some [''summary'']\<rparr>, example_config ''b'' 2 0]
     (Some ''general'') (Some ''balanced'') (Some '''')
   = ([(example_config '''' 1 0)\<lparr>task_types := Some [''summary'']\<rparr>, example_config ''b'' 2 0],
      Inr (example_config ''b'' 2 0))"
  by code_simp

section \<open>Cost strategy\<close>

text \<open>
  C6, as amended. Under strategy \<open>cost\<close> with no requested model, selection over a
  non-empty pool returns a descriptor of the pool with the minimum cost, and among the
  descriptors at that minimum the first one in pool order. With costs 0.5, 0.15 and 0.27
  the descriptor costing 0.15 is selected.
\<close>

theorem cost_strategy_selects_first_cheapest:
  "(suitable_models (refresh_models_from_redis redis AVAILABLE_MODELS) task_type \<noteq> [] \<longrightarrow>
      (\<exists>d. select_optimal_model redis AVAILABLE_MODELS task_type (Some ''cost'') None
            = (refresh_models_from_redis redis AVAILABLE_MODELS, Inr d)
          \<and> d \<in> set (suitable_models (refresh_models_from_redis redis AVAILABLE_MODELS) task_type)
          \<and> (\<forall>m\<in>set (suitable_models (refresh_models_from_redis redis AVAILABLE_MODELS)
                         task_type).
                cost_per_1k_tokens d \<le> cost_per_1k_tokens m)
          \<and> find (\<lambda>m. cost_per_1k_tokens m = cost_per_1k_tokens d)
               (suitable_models (refresh_models_from_redis redis AVAILABLE_MODELS) task_type)
              = Some d))
   \<and> select_optimal_model None
        [example_config ''x'' 1 (5 / 10), example_config ''y'' 2 (15 / 100),
         example_config ''z'' 3 (27 / 100)]
        (Some ''general'') (Some ''cost'') None
      = ([example_config ''x'' 1 (5 / 10), example_config ''y'' 2 (15 / 100),
          example_config ''z'' 3 (27 / 100)],
         Inr (example_config ''y'' 2 (15 / 100)))"
proof (intro conjI impI)
  let ?pool = "suitable_models (refresh_models_from_redis redis AVAILABLE_MODELS) task_type"
  assume "?pool \<noteq> []"
  from py_min_spec [OF this, of cost_per_1k_tokens]
  show "\<exists>d. select_optimal_model redis AVAILABLE_MODELS task_type (Some ''cost'') None
            = (refresh_models_from_redis redis AVAILABLE_MODELS, Inr d)
          \<and> d \<in> set ?pool
          \<and> (\<forall>m\<in>set ?pool. cost_per_1k_tokens d \<le> cost_per_1k_tokens m)
          \<and> find (\<lambda>m. cost_per_1k_tokens m = cost_per_1k_tokens d) ?pool = Some d"
    by (simp add: select_optimal_model_def select_from_def apply_strategy_def Let_def)
next
  show "select_optimal_model None
        [example_config ''x'' 1 (5 / 10), example_config ''y'' 2 (15 / 100),
         example_config ''z'' 3 (27 / 100)]
        (Some ''general'') (Some ''cost'') None
      = ([example_config ''x'' 1 (5 / 10), example_config ''y'' 2 (15 / 100),
          example_config ''z'' 3 (27 / 100)],
         Inr (example_config ''y'' 2 (15 / 100)))"
    by code_simp
qed

text \<open>
  C6 at a concrete input with two descriptors at the minimum cost.
\<close>

theorem cost_strategy_selects_first_cheapest_witness:
  "suitable_models (refresh_models_from_redis None
       [example_config ''a'' 5 0, example_config ''b'' 1 0]) (Some ''general'') \<noteq> []
   \<and> (\<exists>d. select_optimal_model None [example_config ''a'' 5 0, example_config ''b'' 1 0]
             (Some ''general'') (Some ''cost'') None
            = (refresh_models_from_redis None [example_config ''a'' 5 0, example_config ''b'' 1 0],
               Inr d)
          \<and> find (\<lambda>m. cost_per_1k_tokens m = cost_per_1k_tokens d)
               (suitable_models (refresh_models_from_redis None
                  [example_config ''a'' 5 0, example_config ''b'' 1 0]) (Some ''general''))
              = Some d)"
proof -
  have ne: "suitable_models (refresh_models_from_redis None
       [example_config ''a'' 5 0, example_config ''b'' 1 0]) (Some ''general'') \<noteq> []"
    by code_simp
  from cost_strategy_selects_first_cheapest
         [of None "[example_config ''a'' 5 0, example_config ''b'' 1 0]" "Some ''general''"] ne
  show ?thesis by blast
qed

text \<open>
  C6 as stated fails on a tie: \<open>a\<close> and \<open>b\<close> both cost 0, \<open>b\<close> has the lower
  priority (1 against 5), and \<open>a\<close>, the first in list order, is returned.
\<close>

theorem cost_tie_counterexample:
  "select_optimal_model None [example_config ''a'' 5 0, example_config ''b'' 1 0]
     (Some ''general'') (Some ''cost'') None
   = ([example_config ''a'' 5 0, example_config ''b'' 1 0], Inr (example_config ''a'' 5 0))"
  by code_simp

section \<open>Token limit of the outbound call\<close>

text \<open>
  C7. The claim: for every request and every selected descriptor the \<open>max_tokens\<close>
  argument of the outbound call is the minimum of the descriptor's \<open>max_tokens\<close> and of
  the requested \<open>max_tokens\<close> (4096 when none is set), so that requesting 999999
  against a descriptor with \<open>max_tokens = 4096\<close> sends 4096. The standalone copy
  (litellm-service/app.py, line 180) sends a requested value as it is: evaluated at that
  request and descriptor its outbound value is 999999, and with no requested value it is
  \<open>min(4096, 2000) = 2000\<close>. The lib copy sends 4096 for the same request and
  descriptor.
\<close>

theorem standalone_max_tokens_unclamped:
  "kw_max_tokens (standalone_litellm_kwargs (example_request\<lparr>req_max_tokens := Some 999999\<rparr>)
       (example_config ''a'' 1 0)) = 999999
   \<and> max_tokens (example_config ''a'' 1 0) = 4096
   \<and> kw_max_tokens (standalone_litellm_kwargs example_request (example_config ''a'' 1 0)) = 2000
   \<and> kw_max_tokens (litellm_kwargs (example_request\<lparr>req_max_tokens := Some 999999\<rparr>)
        (example_config ''a'' 1 0)) = 4096"
  by (simp add: standalone_litellm_kwargs_def standalone_max_tokens_def litellm_kwargs_def
      example_request_def example_config_def)

text \<open>
  The lib copy (lib/litellm-service/app.py, lines 765-773) clamps: its outbound value is
  the minimum of the descriptor's \<open>max_tokens\<close> and of the requested value when that is
  set and not zero, 4096 otherwise.
\<close>

lemma lib_max_tokens_clamped:
  "kw_max_tokens (litellm_kwargs request selected_model)
     = min (case req_max_tokens request of
              None \<Rightarrow> 4096
            | Some n \<Rightarrow> if n = 0 then 4096 else n)
           (max_tokens selected_model)
   \<and> call_litellm acompletion request selected_model
       = acompletion (litellm_kwargs request selected_model)"
  by (simp add: litellm_kwargs_def call_litellm_def split: option.split)

text \<open>
  In the lib copy a request that sets \<open>max_tokens\<close> to 0 is handled as one that sets
  none (the test is \<open>if request.max_tokens\<close>): against a descriptor with
  \<open>max_tokens = 8192\<close> the outbound value is 4096.
\<close>

lemma lib_zero_max_tokens_is_unset:
  "kw_max_tokens (litellm_kwargs (example_request\<lparr>req_max_tokens := Some 0\<rparr>)
       ((example_config ''a'' 1 0)\<lparr>max_tokens := 8192\<rparr>)) = 4096"
  by code_simp

section \<open>Registry refresh\<close>

text \<open>
  C8, as amended. A refresh replaces the registry by its non-dynamic entries followed by
  the entries loaded from the store (and leaves it unchanged without a store client).
  Nothing is overwritten: the ids of the refreshed registry are unique if and only if the
  ids of the retained static entries are unique, the ids of the loaded entries are unique,
  and no loaded id is the id of a retained static entry. The same holds of the initial
  load, which is the static entries followed by the dynamic ones.
\<close>

theorem refresh_keeps_static_appends_dynamic:
  "refresh_models_from_redis (Some dynamic_models) AVAILABLE_MODELS
     = filter (\<lambda>m. \<not> get_dynamic m) AVAILABLE_MODELS @ dynamic_models
   \<and> refresh_models_from_redis None AVAILABLE_MODELS = AVAILABLE_MODELS
   \<and> (distinct (map model (refresh_models_from_redis (Some dynamic_models) AVAILABLE_MODELS))
        \<longleftrightarrow> distinct (map model (filter (\<lambda>m. \<not> get_dynamic m) AVAILABLE_MODELS))
            \<and> distinct (map model dynamic_models)
            \<and> model ` set (filter (\<lambda>m. \<not> get_dynamic m) AVAILABLE_MODELS)
                \<inter> model ` set dynamic_models = {})
   \<and> (distinct (map model (initial_models static_models dynamic_models))
        \<longleftrightarrow> distinct (map model static_models) \<and> distinct (map model dynamic_models)
            \<and> model ` set static_models \<inter> model ` set dynamic_models = {})"
  by (simp add: refresh_models_from_redis_def initial_models_def)

text \<open>
  C8 as stated fails when a dynamic descriptor has the id of a static one: after the
  refresh both entries are in the registry.
\<close>

theorem registry_duplicate_counterexample:
  "map model (refresh_models_from_redis
       (Some [(example_config ''gpt-4o-mini'' 999 0)\<lparr>dynamic := Some True\<rparr>])
       [example_config ''gpt-4o-mini'' 1 (15 / 100)])
   = [''gpt-4o-mini'', ''gpt-4o-mini'']"
  by code_simp

section \<open>Case-insensitive scoring\<close>

text \<open>
  C10, as amended. The similarity of two identifiers is the similarity of their
  lowercased forms, and two identifiers equal up to letter case score exactly 1.0. A
  non-empty requested id whose cleaned form (after the removal of a \<open>remote_<id>_\<close>
  prefix) equals a candidate up to letter case is resolved to a candidate that scores 1.0
  against the cleaned form.
\<close>

theorem similarity_case_insensitive:
  "calculate_model_similarity a b = calculate_model_similarity (lower a) (lower b)
   \<and> (lower a = lower b \<longrightarrow> calculate_model_similarity a b = 1)
   \<and> (requested \<noteq> [] \<longrightarrow> registry_id \<in> set available \<longrightarrow>
        lower registry_id = lower (clean_requested requested) \<longrightarrow>
          (\<exists>m. find_best_model_match requested available = Some m \<and> m \<in> set available
              \<and> calculate_model_similarity (clean_requested requested) m = 1))"
proof (intro conjI impI)
  show "calculate_model_similarity a b = calculate_model_similarity (lower a) (lower b)"
    by (simp add: calculate_model_similarity_def lower_idem)
next
  assume "lower a = lower b"
  then show "calculate_model_similarity a b = 1"
    by (rule model_similarity_same_lower)
next
  let ?sc = "calculate_model_similarity (clean_requested requested)"
  assume ne: "requested \<noteq> []" and mem: "registry_id \<in> set available"
    and eq: "lower registry_id = lower (clean_requested requested)"
  from eq have one: "?sc registry_id = 1"
    by (simp add: model_similarity_same_lower)
  from one have "?sc registry_id \<ge> 7 / 10" by simp
  from find_best_model_match_accepts [OF ne mem this] one
  obtain m where m: "find_best_model_match requested available = Some m"
    and ms: "m \<in> set available" and "1 \<le> ?sc m"
    by auto
  moreover have "?sc m \<le> 1" by (rule model_similarity_le_1)
  ultimately have "?sc m = 1" by simp
  with m ms show "\<exists>m. find_best_model_match requested available = Some m \<and> m \<in> set available
              \<and> ?sc m = 1"
    by blast
qed

text \<open>
  C10 at a concrete input.
\<close>

theorem similarity_case_insensitive_witness:
  "''GPT-4o-Mini'' \<noteq> [] \<and> ''gpt-4o-mini'' \<in> set [''llama3.1:8b'', ''gpt-4o-mini'']
   \<and> lower ''gpt-4o-mini'' = lower (clean_requested ''GPT-4o-Mini'')
   \<and> find_best_model_match ''GPT-4o-Mini'' [''llama3.1:8b'', ''gpt-4o-mini''] = Some ''gpt-4o-mini''
   \<and> (\<exists>m. find_best_model_match ''GPT-4o-Mini'' [''llama3.1:8b'', ''gpt-4o-mini''] = Some m
          \<and> calculate_model_similarity (clean_requested ''GPT-4o-Mini'') m = 1)"
proof -
  have ne: "''GPT-4o-Mini'' \<noteq> []" by simp
  have mem: "''gpt-4o-mini'' \<in> set [''llama3.1:8b'', ''gpt-4o-mini'']" by simp
  have eq: "lower ''gpt-4o-mini'' = lower (clean_requested ''GPT-4o-Mini'')" by code_simp
  have r: "find_best_model_match ''GPT-4o-Mini'' [''llama3.1:8b'', ''gpt-4o-mini'']
      = Some ''gpt-4o-mini''"
    by code_simp
  from similarity_case_insensitive [of _ _ "''GPT-4o-Mini''" "''gpt-4o-mini''"
      "[''llama3.1:8b'', ''gpt-4o-mini'']"] ne mem eq
  have "\<exists>m. find_best_model_match ''GPT-4o-Mini'' [''llama3.1:8b'', ''gpt-4o-mini''] = Some m
          \<and> calculate_model_similarity (clean_requested ''GPT-4o-Mini'') m = 1"
    by blast
  with ne mem eq r show ?thesis by blast
qed

text \<open>
  C10 as stated fails when the prefix removal applies: \<open>remote_a_b\<close> and
  \<open>REMOTE_A_B\<close> are equal up to letter case, but the requested id is cleaned to
  \<open>b\<close> before scoring and nothing is resolved.
\<close>

theorem case_variant_counterexample:
  "lower ''REMOTE_A_B'' = lower ''remote_a_b''
   \<and> find_best_model_match ''remote_a_b'' [''REMOTE_A_B''] = None"
  by code_simp

end
